theory Spec2Isabelle
  imports Main "HOL-Library.Word"
begin

section \<open>JIT stub routines owned by reference counts and by the collector\<close>

text \<open>
  A shallow embedding of \<^verbatim>\<open>Source/JavaScriptCore/jit/GCAwareJITStubRoutine.cpp\<close>.
  Classes are records (a subclass extends the record of its base class), pointers that may
  be null are options, a method that mutates \<^verbatim>\<open>this\<close> returns the new object, a
  method that may run \<^verbatim>\<open>delete this\<close> returns the object's \<open>life\<close>, and a failed
  assertion is the left injection of a sum.
\<close>

subsection \<open>Build parameters and assertions\<close>

type_synonym JITType = nat

text \<open>
  The macros \<^verbatim>\<open>ASSERT\<close>, \<^verbatim>\<open>RELEASE_ASSERT\<close> and \<^verbatim>\<open>ENABLE(DFG_JIT)\<close> and the
  predicate \<^verbatim>\<open>JITCode::isOptimizingJIT\<close> are declared outside the translated file; they
  are parameters of the model. \<open>assertionsEnabled\<close> says whether \<^verbatim>\<open>ASSERT\<close> is
  compiled in (a debug build), \<open>dfgJitEnabled\<close> is \<^verbatim>\<open>ENABLE(DFG_JIT)\<close>, and
  \<open>isOptimizingJIT\<close> tells which compilation tiers carry exception unwinding metadata.
  \<^verbatim>\<open>RELEASE_ASSERT\<close> checks in every build.
\<close>

record platform =
  assertionsEnabled :: bool
  dfgJitEnabled :: bool
  isOptimizingJIT :: "JITType \<Rightarrow> bool"

datatype crash = AssertionFailure | ReleaseAssertionFailure | RefCountUnderflow

definition ASSERT :: "platform \<Rightarrow> bool \<Rightarrow> crash + 'a \<Rightarrow> crash + 'a" where
  "ASSERT pf assertion rest =
     (if assertionsEnabled pf \<and> \<not> assertion then Inl AssertionFailure else rest)"

definition RELEASE_ASSERT :: "bool \<Rightarrow> crash + 'a \<Rightarrow> crash + 'a" where
  "RELEASE_ASSERT assertion rest =
     (if assertion then rest else Inl ReleaseAssertionFailure)"

text \<open>What is left of an object after a method that may end in \<^verbatim>\<open>delete this\<close>.\<close>

datatype 'a life = Alive 'a | Dead

subsection \<open>Collaborators\<close>

type_synonym MacroAssemblerCodeRef = nat
type_synonym JSCell = nat
type_synonym RoutinePtr = nat
type_synonym CodeBlockPtr = nat
type_synonym HandlerInfo = nat
type_synonym CallSiteIndex = "32 word"

text \<open>
  A \<^verbatim>\<open>CallSiteIndex\<close> wraps an \<^verbatim>\<open>unsigned\<close>, which \<^verbatim>\<open>bits()\<close> reads; it is
  modelled by that number. Code, cells, handler entries and addresses are opaque to the
  translated file and are natural numbers.
\<close>

text \<open>
  Modelled from the spec: \<^verbatim>\<open>CodeBlock\<close> and \<^verbatim>\<open>DFG::CommonData\<close> are not among the
  source files. A code unit has a compilation tier, a handler table mapping a call-site
  identifier to its unwinding metadata, and auxiliary metadata holding the call-site
  indices in use. \<open>removeExceptionHandlerForCallSite\<close> is the handler table's
  \<^verbatim>\<open>removeEntry\<close> and \<open>removeCallSiteIndex\<close> is its \<^verbatim>\<open>removeCallSiteMetadata\<close>.
\<close>

record CodeBlock =
  jitType :: JITType
  exceptionHandlers :: "CallSiteIndex \<rightharpoonup> HandlerInfo"
  callSiteIndices :: "CallSiteIndex set"

definition handlerForIndex :: "CodeBlock \<Rightarrow> CallSiteIndex \<Rightarrow> HandlerInfo option" where
  "handlerForIndex cb i = exceptionHandlers cb i"

definition removeExceptionHandlerForCallSite :: "CallSiteIndex \<Rightarrow> CodeBlock \<Rightarrow> CodeBlock" where
  "removeExceptionHandlerForCallSite i cb =
     cb\<lparr>exceptionHandlers := (exceptionHandlers cb)(i := None)\<rparr>"

definition removeCallSiteIndex :: "CallSiteIndex \<Rightarrow> CodeBlock \<Rightarrow> CodeBlock" where
  "removeCallSiteIndex i cb = cb\<lparr>callSiteIndices := callSiteIndices cb - {i}\<rparr>"

text \<open>
  Code units live in memory and are reached through \<^verbatim>\<open>CodeBlock*\<close>; several routines
  may point at the same one, so they are kept in a store indexed by address.
\<close>

type_synonym memory = "CodeBlockPtr \<Rightarrow> CodeBlock"

text \<open>
  Modelled from the spec: \<^verbatim>\<open>VM\<close>, \<^verbatim>\<open>Heap\<close> and \<^verbatim>\<open>JITStubRoutineSet\<close> are not
  among the source files. \<open>m_jitStubRoutines\<close> is the root registry; \<open>JITStubRoutineSet_add\<close> is its
  \<^verbatim>\<open>register(routine)\<close>.
\<close>

record VM =
  m_jitStubRoutines :: "RoutinePtr list"

definition JITStubRoutineSet_add :: "RoutinePtr \<Rightarrow> VM \<Rightarrow> VM" where
  "JITStubRoutineSet_add routine vm = vm\<lparr>m_jitStubRoutines := m_jitStubRoutines vm @ [routine]\<rparr>"

text \<open>
  Modelled from the spec: \<^verbatim>\<open>SlotVisitor\<close> is not among the source files. The tracer is
  the sequence of \<^verbatim>\<open>visit\<close> calls it has received, each with the reference held by the
  slot it was given.
\<close>

record SlotVisitor =
  visited :: "JSCell option list"

definition SlotVisitor_append :: "JSCell option \<Rightarrow> SlotVisitor \<Rightarrow> SlotVisitor" where
  "SlotVisitor_append slot visitor = visitor\<lparr>visited := visited visitor @ [slot]\<rparr>"

subsection \<open>The classes\<close>

text \<open>
  Modelled from the spec: the base class \<^verbatim>\<open>JITStubRoutine\<close> is declared in a header that
  is not among the source files. It owns the code and a reference count that starts at one.
\<close>

record JITStubRoutine =
  m_code :: MacroAssemblerCodeRef
  m_refCount :: nat

record GCAwareJITStubRoutine = JITStubRoutine +
  m_mayBeExecuting :: bool
  m_isJettisoned :: bool

text \<open>
  \<open>m_object\<close> is a \<^verbatim>\<open>WriteBarrier<JSCell>\<close>: a slot holding the pointer it was
  constructed with. The owner passed to its constructor is used for the collector's
  write barrier only and is not stored.
\<close>

record MarkingGCAwareJITStubRoutineWithOneObject = GCAwareJITStubRoutine +
  m_object :: "JSCell option"

record GCAwareJITStubRoutineWithExceptionHandler = GCAwareJITStubRoutine +
  m_codeBlockWithExceptionHandler :: "CodeBlockPtr option"
  m_exceptionHandlerCallSiteIndex :: CallSiteIndex

text \<open>\<^verbatim>\<open>PassRefPtr<JITStubRoutine>\<close>: a pointer to an object of one of the four classes.\<close>

datatype Routine =
    Plain JITStubRoutine
  | GCAware GCAwareJITStubRoutine
  | MarkingOneObject MarkingGCAwareJITStubRoutineWithOneObject
  | WithExceptionHandler GCAwareJITStubRoutineWithExceptionHandler

subsection \<open>\<^verbatim>\<open>GCAwareJITStubRoutine\<close>\<close>

definition JITStubRoutine_new :: "MacroAssemblerCodeRef \<Rightarrow> JITStubRoutine" where
  "JITStubRoutine_new code = \<lparr>m_code = code, m_refCount = 1\<rparr>"

text \<open>The constructors take the address \<open>this\<close> that \<^verbatim>\<open>new\<close> allocated.\<close>

definition GCAwareJITStubRoutine_new ::
  "RoutinePtr \<Rightarrow> MacroAssemblerCodeRef \<Rightarrow> VM \<Rightarrow> GCAwareJITStubRoutine \<times> VM" where
  "GCAwareJITStubRoutine_new this code vm =
     (case JITStubRoutine_new code of
        base \<Rightarrow>
          (\<lparr>m_code = m_code base, m_refCount = m_refCount base,
            m_mayBeExecuting = False, m_isJettisoned = False\<rparr>,
           JITStubRoutineSet_add this vm))"

definition GCAware_observeZeroRefCount ::
  "'a GCAwareJITStubRoutine_scheme \<Rightarrow> crash + 'a GCAwareJITStubRoutine_scheme life" where
  "GCAware_observeZeroRefCount r =
     (if m_isJettisoned r then Inr Dead
      else RELEASE_ASSERT (m_refCount r = 0) (Inr (Alive (r\<lparr>m_isJettisoned := True\<rparr>))))"

definition deleteFromGC ::
  "platform \<Rightarrow> 'a GCAwareJITStubRoutine_scheme \<Rightarrow> crash + 'a GCAwareJITStubRoutine_scheme life" where
  "deleteFromGC pf r =
     ASSERT pf (m_isJettisoned r)
       (ASSERT pf (m_refCount r = 0)
         (ASSERT pf (\<not> m_mayBeExecuting r)
           (Inr Dead)))"

definition GCAware_markRequiredObjectsInternal ::
  "'a GCAwareJITStubRoutine_scheme \<Rightarrow> SlotVisitor \<Rightarrow> 'a GCAwareJITStubRoutine_scheme \<times> SlotVisitor" where
  "GCAware_markRequiredObjectsInternal r visitor = (r, visitor)"

subsection \<open>\<^verbatim>\<open>MarkingGCAwareJITStubRoutineWithOneObject\<close>\<close>

definition MarkingGCAwareJITStubRoutineWithOneObject_new ::
  "RoutinePtr \<Rightarrow> MacroAssemblerCodeRef \<Rightarrow> VM \<Rightarrow> JSCell option \<Rightarrow> JSCell option
     \<Rightarrow> MarkingGCAwareJITStubRoutineWithOneObject \<times> VM" where
  "MarkingGCAwareJITStubRoutineWithOneObject_new this code vm owner object =
     (case GCAwareJITStubRoutine_new this code vm of
        (base, vm') \<Rightarrow>
          (\<lparr>m_code = m_code base, m_refCount = m_refCount base,
            m_mayBeExecuting = m_mayBeExecuting base, m_isJettisoned = m_isJettisoned base,
            m_object = object\<rparr>,
           vm'))"

definition Marking_markRequiredObjectsInternal ::
  "MarkingGCAwareJITStubRoutineWithOneObject \<Rightarrow> SlotVisitor
     \<Rightarrow> MarkingGCAwareJITStubRoutineWithOneObject \<times> SlotVisitor" where
  "Marking_markRequiredObjectsInternal r visitor = (r, SlotVisitor_append (m_object r) visitor)"

subsection \<open>\<^verbatim>\<open>GCAwareJITStubRoutineWithExceptionHandler\<close>\<close>

definition GCAwareJITStubRoutineWithExceptionHandler_new ::
  "platform \<Rightarrow> RoutinePtr \<Rightarrow> MacroAssemblerCodeRef \<Rightarrow> VM \<Rightarrow> memory
     \<Rightarrow> CodeBlockPtr option \<Rightarrow> CallSiteIndex
     \<Rightarrow> crash + GCAwareJITStubRoutineWithExceptionHandler \<times> VM" where
  "GCAwareJITStubRoutineWithExceptionHandler_new pf this code vm mem
       codeBlockForExceptionHandlers exceptionHandlerCallSiteIndex =
     (case GCAwareJITStubRoutine_new this code vm of
        (base, vm') \<Rightarrow>
          (case codeBlockForExceptionHandlers of
             None \<Rightarrow> Inl ReleaseAssertionFailure
           | Some p \<Rightarrow>
               ASSERT pf (handlerForIndex (mem p) exceptionHandlerCallSiteIndex \<noteq> None)
                 (Inr (\<lparr>m_code = m_code base, m_refCount = m_refCount base,
                        m_mayBeExecuting = m_mayBeExecuting base,
                        m_isJettisoned = m_isJettisoned base,
                        m_codeBlockWithExceptionHandler = codeBlockForExceptionHandlers,
                        m_exceptionHandlerCallSiteIndex = exceptionHandlerCallSiteIndex\<rparr>,
                       vm'))))"

definition aboutToDie ::
  "GCAwareJITStubRoutineWithExceptionHandler \<Rightarrow> GCAwareJITStubRoutineWithExceptionHandler" where
  "aboutToDie r = r\<lparr>m_codeBlockWithExceptionHandler := None\<rparr>"

text \<open>
  The block between \<^verbatim>\<open>#if ENABLE(DFG_JIT)\<close> and \<^verbatim>\<open>#endif\<close>: the routine and the
  memory after it.
\<close>

definition removeHandlerIfLive ::
  "GCAwareJITStubRoutineWithExceptionHandler \<Rightarrow> memory
     \<Rightarrow> GCAwareJITStubRoutineWithExceptionHandler \<times> memory" where
  "removeHandlerIfLive r mem =
     (case m_codeBlockWithExceptionHandler r of
        Some p \<Rightarrow>
          (r\<lparr>m_codeBlockWithExceptionHandler := None\<rparr>,
           mem(p := removeExceptionHandlerForCallSite (m_exceptionHandlerCallSiteIndex r)
                      (removeCallSiteIndex (m_exceptionHandlerCallSiteIndex r) (mem p))))
      | None \<Rightarrow> (r, mem))"

definition WithExceptionHandler_observeZeroRefCount ::
  "platform \<Rightarrow> GCAwareJITStubRoutineWithExceptionHandler \<Rightarrow> memory
     \<Rightarrow> crash + GCAwareJITStubRoutineWithExceptionHandler life \<times> memory" where
  "WithExceptionHandler_observeZeroRefCount pf r mem =
     (case (if dfgJitEnabled pf then removeHandlerIfLive r mem else (r, mem)) of
        (r', mem') \<Rightarrow>
          (case GCAware_observeZeroRefCount r' of
             Inl c \<Rightarrow> Inl c
           | Inr l \<Rightarrow> Inr (l, mem')))"





subsection \<open>The factory\<close>

definition createJITStubRoutine ::
  "platform \<Rightarrow> RoutinePtr \<Rightarrow> MacroAssemblerCodeRef \<Rightarrow> VM \<Rightarrow> memory \<Rightarrow> JSCell option \<Rightarrow> bool
     \<Rightarrow> JSCell option \<Rightarrow> CodeBlockPtr option \<Rightarrow> CallSiteIndex \<Rightarrow> crash + Routine \<times> VM" where
  "createJITStubRoutine pf this code vm mem owner makesCalls object
       codeBlockForExceptionHandlers exceptionHandlerCallSiteIndex =
     (if \<not> makesCalls then Inr (Plain (JITStubRoutine_new code), vm)
      else
        (case codeBlockForExceptionHandlers of
           Some p \<Rightarrow>
             RELEASE_ASSERT (object = None)
               (RELEASE_ASSERT (isOptimizingJIT pf (jitType (mem p)))
                 (case GCAwareJITStubRoutineWithExceptionHandler_new pf this code vm mem
                         codeBlockForExceptionHandlers exceptionHandlerCallSiteIndex of
                    Inl c \<Rightarrow> Inl c
                  | Inr (r, vm') \<Rightarrow> Inr (WithExceptionHandler r, vm')))
         | None \<Rightarrow>
             (if object = None then
                (case GCAwareJITStubRoutine_new this code vm of
                   (r, vm') \<Rightarrow> Inr (GCAware r, vm'))
              else
                (case MarkingGCAwareJITStubRoutineWithOneObject_new this code vm owner object of
                   (r, vm') \<Rightarrow> Inr (MarkingOneObject r, vm')))))"

subsection \<open>Virtual dispatch and reference counting\<close>

fun refCount :: "Routine \<Rightarrow> nat" where
  "refCount (Plain r) = m_refCount r"
| "refCount (GCAware r) = m_refCount r"
| "refCount (MarkingOneObject r) = m_refCount r"
| "refCount (WithExceptionHandler r) = m_refCount r"

fun setRefCount :: "nat \<Rightarrow> Routine \<Rightarrow> Routine" where
  "setRefCount n (Plain r) = Plain (r\<lparr>m_refCount := n\<rparr>)"
| "setRefCount n (GCAware r) = GCAware (r\<lparr>m_refCount := n\<rparr>)"
| "setRefCount n (MarkingOneObject r) = MarkingOneObject (r\<lparr>m_refCount := n\<rparr>)"
| "setRefCount n (WithExceptionHandler r) = WithExceptionHandler (r\<lparr>m_refCount := n\<rparr>)"

fun isJettisoned :: "Routine \<Rightarrow> bool" where
  "isJettisoned (Plain r) = False"
| "isJettisoned (GCAware r) = m_isJettisoned r"
| "isJettisoned (MarkingOneObject r) = m_isJettisoned r"
| "isJettisoned (WithExceptionHandler r) = m_isJettisoned r"

text \<open>
  Modelled from the spec: \<^verbatim>\<open>JITStubRoutine::observeZeroRefCount\<close>, \<^verbatim>\<open>ref\<close> and
  \<^verbatim>\<open>deref\<close> are not among the source files. A plain routine is destroyed when its
  count reaches zero; \<open>JITStubRoutine_ref\<close> is the spec's \<^verbatim>\<open>acquire()\<close>, which increments the count;
  \<open>JITStubRoutine_deref\<close> is the spec's \<^verbatim>\<open>release()\<close>, which decrements the count and, when it
  reaches zero, invokes \<open>observeZeroRefCount\<close> once; decrementing below zero is fatal.
\<close>

fun observeZeroRefCount ::
  "platform \<Rightarrow> Routine \<Rightarrow> memory \<Rightarrow> crash + Routine life \<times> memory" where
  "observeZeroRefCount pf (Plain r) mem = Inr (Dead, mem)"
| "observeZeroRefCount pf (GCAware r) mem =
     (case GCAware_observeZeroRefCount r of
        Inl c \<Rightarrow> Inl c | Inr l \<Rightarrow> Inr (map_life GCAware l, mem))"
| "observeZeroRefCount pf (MarkingOneObject r) mem =
     (case GCAware_observeZeroRefCount r of
        Inl c \<Rightarrow> Inl c | Inr l \<Rightarrow> Inr (map_life MarkingOneObject l, mem))"
| "observeZeroRefCount pf (WithExceptionHandler r) mem =
     (case WithExceptionHandler_observeZeroRefCount pf r mem of
        Inl c \<Rightarrow> Inl c | Inr (l, mem') \<Rightarrow> Inr (map_life WithExceptionHandler l, mem'))"

definition JITStubRoutine_ref :: "Routine \<Rightarrow> Routine" where
  "JITStubRoutine_ref routine = setRefCount (refCount routine + 1) routine"

definition JITStubRoutine_deref :: "platform \<Rightarrow> Routine \<Rightarrow> memory \<Rightarrow> crash + Routine life \<times> memory" where
  "JITStubRoutine_deref pf routine mem =
     (if refCount routine = 0 then Inl RefCountUnderflow
      else if refCount routine - 1 \<noteq> 0
        then Inr (Alive (setRefCount (refCount routine - 1) routine), mem)
      else observeZeroRefCount pf (setRefCount (refCount routine - 1) routine) mem)"

subsection \<open>Sequences of calls\<close>

fun isGCAware :: "Routine \<Rightarrow> bool" where
  "isGCAware (Plain r) = False"
| "isGCAware (GCAware r) = True"
| "isGCAware (MarkingOneObject r) = True"
| "isGCAware (WithExceptionHandler r) = True"

fun backReference :: "Routine \<Rightarrow> CodeBlockPtr option" where
  "backReference (WithExceptionHandler r) = m_codeBlockWithExceptionHandler r"
| "backReference (Plain r) = None"
| "backReference (GCAware r) = None"
| "backReference (MarkingOneObject r) = None"

text \<open>
  The calls a client, the collector or a code unit can make on a routine it holds. A call
  that the object's class does not declare cannot be written in the source; \<open>perform\<close>
  leaves the object as it is there, so every call sequence of the source is among the
  sequences \<open>performAll\<close> runs. \<^verbatim>\<open>markRequiredObjectsInternal\<close> is virtual and the
  exception-handling class inherits it from \<^verbatim>\<open>GCAwareJITStubRoutine\<close>.
\<close>

datatype call =
  Ref | Deref | ObserveZeroRefCount | DeleteFromGC | MarkRequiredObjectsInternal | AboutToDie

fun perform ::
  "platform \<Rightarrow> call \<Rightarrow> Routine \<Rightarrow> memory \<Rightarrow> SlotVisitor
     \<Rightarrow> crash + Routine life \<times> memory \<times> SlotVisitor" where
  "perform pf Ref routine mem visitor = Inr (Alive (JITStubRoutine_ref routine), mem, visitor)"
| "perform pf Deref routine mem visitor =
     (case JITStubRoutine_deref pf routine mem of
        Inl c \<Rightarrow> Inl c | Inr (l, mem') \<Rightarrow> Inr (l, mem', visitor))"
| "perform pf ObserveZeroRefCount routine mem visitor =
     (case observeZeroRefCount pf routine mem of
        Inl c \<Rightarrow> Inl c | Inr (l, mem') \<Rightarrow> Inr (l, mem', visitor))"
| "perform pf DeleteFromGC (Plain r) mem visitor = Inr (Alive (Plain r), mem, visitor)"
| "perform pf DeleteFromGC (GCAware r) mem visitor =
     (case deleteFromGC pf r of
        Inl c \<Rightarrow> Inl c | Inr l \<Rightarrow> Inr (map_life GCAware l, mem, visitor))"
| "perform pf DeleteFromGC (MarkingOneObject r) mem visitor =
     (case deleteFromGC pf r of
        Inl c \<Rightarrow> Inl c | Inr l \<Rightarrow> Inr (map_life MarkingOneObject l, mem, visitor))"
| "perform pf DeleteFromGC (WithExceptionHandler r) mem visitor =
     (case deleteFromGC pf r of
        Inl c \<Rightarrow> Inl c | Inr l \<Rightarrow> Inr (map_life WithExceptionHandler l, mem, visitor))"
| "perform pf MarkRequiredObjectsInternal (Plain r) mem visitor =
     Inr (Alive (Plain r), mem, visitor)"
| "perform pf MarkRequiredObjectsInternal (GCAware r) mem visitor =
     (case GCAware_markRequiredObjectsInternal r visitor of
        (r', visitor') \<Rightarrow> Inr (Alive (GCAware r'), mem, visitor'))"
| "perform pf MarkRequiredObjectsInternal (MarkingOneObject r) mem visitor =
     (case Marking_markRequiredObjectsInternal r visitor of
        (r', visitor') \<Rightarrow> Inr (Alive (MarkingOneObject r'), mem, visitor'))"
| "perform pf MarkRequiredObjectsInternal (WithExceptionHandler r) mem visitor =
     (case GCAware_markRequiredObjectsInternal r visitor of
        (r', visitor') \<Rightarrow> Inr (Alive (WithExceptionHandler r'), mem, visitor'))"
| "perform pf AboutToDie (WithExceptionHandler r) mem visitor =
     Inr (Alive (WithExceptionHandler (aboutToDie r)), mem, visitor)"
| "perform pf AboutToDie (Plain r) mem visitor = Inr (Alive (Plain r), mem, visitor)"
| "perform pf AboutToDie (GCAware r) mem visitor = Inr (Alive (GCAware r), mem, visitor)"
| "perform pf AboutToDie (MarkingOneObject r) mem visitor =
     Inr (Alive (MarkingOneObject r), mem, visitor)"

text \<open>
  A run ends at the first failed assertion and at the destruction of the object: the
  source gives no meaning to a call on a destroyed object.
\<close>

fun performAll ::
  "platform \<Rightarrow> call list \<Rightarrow> Routine \<Rightarrow> memory \<Rightarrow> SlotVisitor
     \<Rightarrow> crash + Routine life \<times> memory \<times> SlotVisitor" where
  "performAll pf [] routine mem visitor = Inr (Alive routine, mem, visitor)"
| "performAll pf (c # cs) routine mem visitor =
     (case perform pf c routine mem visitor of
        Inl e \<Rightarrow> Inl e
      | Inr (Dead, mem', visitor') \<Rightarrow> Inr (Dead, mem', visitor')
      | Inr (Alive routine', mem', visitor') \<Rightarrow> performAll pf cs routine' mem' visitor')"

subsection \<open>Concrete builds and objects\<close>

definition debugBuild :: platform where
  "debugBuild =
     \<lparr>assertionsEnabled = True, dfgJitEnabled = True, isOptimizingJIT = (\<lambda>t. 4 \<le> t)\<rparr>"

definition releaseBuild :: platform where
  "releaseBuild =
     \<lparr>assertionsEnabled = False, dfgJitEnabled = True, isOptimizingJIT = (\<lambda>t. 4 \<le> t)\<rparr>"


definition exampleCodeBlock :: CodeBlock where
  "exampleCodeBlock =
     \<lparr>jitType = 4, exceptionHandlers = [3 \<mapsto> 42], callSiteIndices = {3, 5}\<rparr>"

definition exampleMemory :: memory where
  "exampleMemory = (\<lambda>p. exampleCodeBlock)"

definition exampleVM :: VM where
  "exampleVM = \<lparr>m_jitStubRoutines = [10, 11]\<rparr>"

definition exampleVisitor :: SlotVisitor where
  "exampleVisitor = \<lparr>visited = [Some 8]\<rparr>"

definition liveRoutine :: GCAwareJITStubRoutine where
  "liveRoutine =
     \<lparr>m_code = 0, m_refCount = 1, m_mayBeExecuting = True, m_isJettisoned = False\<rparr>"

definition condemnedRoutine :: GCAwareJITStubRoutine where
  "condemnedRoutine =
     \<lparr>m_code = 0, m_refCount = 0, m_mayBeExecuting = False, m_isJettisoned = True\<rparr>"

definition markingRoutine :: MarkingGCAwareJITStubRoutineWithOneObject where
  "markingRoutine =
     \<lparr>m_code = 0, m_refCount = 1, m_mayBeExecuting = False, m_isJettisoned = False,
      m_object = Some 9\<rparr>"

definition handlerRoutine :: GCAwareJITStubRoutineWithExceptionHandler where
  "handlerRoutine =
     \<lparr>m_code = 0, m_refCount = 1, m_mayBeExecuting = False, m_isJettisoned = False,
      m_codeBlockWithExceptionHandler = Some 7, m_exceptionHandlerCallSiteIndex = 3\<rparr>"

section \<open>Properties\<close>

subsection \<open>Auxiliary facts\<close>

lemma map_life_eq_Alive: "map_life f l = Alive y \<longleftrightarrow> (\<exists>x. l = Alive x \<and> y = f x)"
  by (cases l) auto

lemma GCAware_observeZeroRefCount_live:
  "\<not> m_isJettisoned r \<Longrightarrow> m_refCount r = 0
     \<Longrightarrow> GCAware_observeZeroRefCount r = Inr (Alive (r\<lparr>m_isJettisoned := True\<rparr>))"
  by (simp add: GCAware_observeZeroRefCount_def RELEASE_ASSERT_def)

lemma GCAware_observeZeroRefCount_jettisoned:
  "m_isJettisoned r \<Longrightarrow> GCAware_observeZeroRefCount r = Inr Dead"
  by (simp add: GCAware_observeZeroRefCount_def)

lemma removeHandlerIfLive_flags:
  "removeHandlerIfLive r mem = (r', mem')
     \<Longrightarrow> m_isJettisoned r' = m_isJettisoned r \<and> m_refCount r' = m_refCount r
         \<and> m_mayBeExecuting r' = m_mayBeExecuting r"
  by (auto simp: removeHandlerIfLive_def split: option.splits)

lemma observeZeroRefCount_live:
  assumes "isGCAware routine" "\<not> isJettisoned routine" "refCount routine = 0"
  shows "\<exists>routine' mem'. observeZeroRefCount pf routine mem = Inr (Alive routine', mem')
           \<and> isJettisoned routine' \<and> refCount routine' = 0"
proof (cases routine)
  case (Plain r)
  with assms show ?thesis by simp
next
  case (GCAware r)
  with assms show ?thesis by (simp add: GCAware_observeZeroRefCount_live)
next
  case (MarkingOneObject r)
  with assms show ?thesis by (simp add: GCAware_observeZeroRefCount_live)
next
  case (WithExceptionHandler r)
  obtain r' mem' where rm: "(if dfgJitEnabled pf then removeHandlerIfLive r mem else (r, mem)) = (r', mem')"
    by (cases "if dfgJitEnabled pf then removeHandlerIfLive r mem else (r, mem)") 
  then have "m_isJettisoned r' = m_isJettisoned r \<and> m_refCount r' = m_refCount r"
    using removeHandlerIfLive_flags [of r mem r' mem'] by (auto split: if_splits)
  with assms WithExceptionHandler rm show ?thesis
    by (simp add: WithExceptionHandler_observeZeroRefCount_def GCAware_observeZeroRefCount_live)
qed

lemma observeZeroRefCount_jettisoned:
  assumes "isGCAware routine" "isJettisoned routine"
  shows "\<exists>mem'. observeZeroRefCount pf routine mem = Inr (Dead, mem')"
proof (cases routine)
  case (Plain r)
  with assms show ?thesis by simp
next
  case (GCAware r)
  with assms show ?thesis by (simp add: GCAware_observeZeroRefCount_jettisoned)
next
  case (MarkingOneObject r)
  with assms show ?thesis by (simp add: GCAware_observeZeroRefCount_jettisoned)
next
  case (WithExceptionHandler r)
  obtain r' mem' where rm: "(if dfgJitEnabled pf then removeHandlerIfLive r mem else (r, mem)) = (r', mem')"
    by (cases "if dfgJitEnabled pf then removeHandlerIfLive r mem else (r, mem)") 
  then have "m_isJettisoned r' = m_isJettisoned r"
    using removeHandlerIfLive_flags [of r mem r' mem'] by (auto split: if_splits)
  with assms WithExceptionHandler rm show ?thesis
    by (simp add: WithExceptionHandler_observeZeroRefCount_def GCAware_observeZeroRefCount_jettisoned)
qed

lemma GCAware_observeZeroRefCount_keeps_flag:
  "GCAware_observeZeroRefCount r = Inr (Alive r') \<Longrightarrow> m_isJettisoned r'"
  by (auto simp: GCAware_observeZeroRefCount_def RELEASE_ASSERT_def split: if_splits)

lemma deleteFromGC_never_alive: "deleteFromGC pf r \<noteq> Inr (Alive r')"
  by (simp add: deleteFromGC_def ASSERT_def)

lemma observeZeroRefCount_keeps_flag:
  "observeZeroRefCount pf routine mem = Inr (Alive routine', mem') \<Longrightarrow> isJettisoned routine'"
proof (cases routine)
  case (Plain r)
  then show "observeZeroRefCount pf routine mem = Inr (Alive routine', mem') \<Longrightarrow> isJettisoned routine'"
    by simp
next
  case (GCAware r)
  then show "observeZeroRefCount pf routine mem = Inr (Alive routine', mem') \<Longrightarrow> isJettisoned routine'"
    by (auto simp: map_life_eq_Alive split: sum.splits dest: GCAware_observeZeroRefCount_keeps_flag)
next
  case (MarkingOneObject r)
  then show "observeZeroRefCount pf routine mem = Inr (Alive routine', mem') \<Longrightarrow> isJettisoned routine'"
    by (auto simp: map_life_eq_Alive split: sum.splits dest: GCAware_observeZeroRefCount_keeps_flag)
next
  case (WithExceptionHandler r)
  then show "observeZeroRefCount pf routine mem = Inr (Alive routine', mem') \<Longrightarrow> isJettisoned routine'"
    by (auto simp: WithExceptionHandler_observeZeroRefCount_def map_life_eq_Alive
        split: sum.splits prod.splits dest: GCAware_observeZeroRefCount_keeps_flag)
qed

lemma isJettisoned_setRefCount [simp]: "isJettisoned (setRefCount n routine) = isJettisoned routine"
  by (cases routine) simp_all

lemma backReference_setRefCount [simp]:
  "backReference (setRefCount n routine) = backReference routine"
  by (cases routine) simp_all


lemma WithExceptionHandler_new_result:
  "GCAwareJITStubRoutineWithExceptionHandler_new pf this code vm mem (Some p) cs =
     (if assertionsEnabled pf \<and> handlerForIndex (mem p) cs = None then Inl AssertionFailure
      else Inr (\<lparr>m_code = code, m_refCount = 1, m_mayBeExecuting = False, m_isJettisoned = False,
                 m_codeBlockWithExceptionHandler = Some p,
                 m_exceptionHandlerCallSiteIndex = cs\<rparr>,
                JITStubRoutineSet_add this vm))"
  by (simp add: GCAwareJITStubRoutineWithExceptionHandler_new_def ASSERT_def
      GCAwareJITStubRoutine_new_def JITStubRoutine_new_def)

subsection \<open>Deletion by the collector\<close>

text \<open>
  C1. When the routine is jettisoned, its reference count is zero and it is not executing,
  \<open>deleteFromGC\<close> destroys it, in every build. The three conditions are checked with
  \<^verbatim>\<open>ASSERT\<close>: in a build that compiles \<^verbatim>\<open>ASSERT\<close> in, a call with any of the
  conditions false fails an assertion and nothing is destroyed; in a build that compiles it
  out nothing is checked and the routine is destroyed whatever its state.
\<close>

theorem deleteFromGC_checked_in_debug_builds:
  "(m_isJettisoned r \<and> m_refCount r = 0 \<and> \<not> m_mayBeExecuting r
      \<longrightarrow> deleteFromGC pf r = Inr Dead)
   \<and> (assertionsEnabled pf \<and> \<not> (m_isJettisoned r \<and> m_refCount r = 0 \<and> \<not> m_mayBeExecuting r)
      \<longrightarrow> deleteFromGC pf r = Inl AssertionFailure)
   \<and> (\<not> assertionsEnabled pf \<longrightarrow> deleteFromGC pf r = Inr Dead)"
  by (simp add: deleteFromGC_def ASSERT_def)

theorem deleteFromGC_checked_in_debug_builds_witness:
  "deleteFromGC debugBuild condemnedRoutine = Inr Dead
   \<and> deleteFromGC debugBuild liveRoutine = Inl AssertionFailure
   \<and> deleteFromGC releaseBuild liveRoutine = Inr Dead"
  using deleteFromGC_checked_in_debug_builds [of condemnedRoutine debugBuild]
    deleteFromGC_checked_in_debug_builds [of liveRoutine debugBuild]
    deleteFromGC_checked_in_debug_builds [of liveRoutine releaseBuild]
  by (simp add: debugBuild_def releaseBuild_def liveRoutine_def condemnedRoutine_def)

text \<open>
  In a build without \<^verbatim>\<open>ASSERT\<close> the collector can delete a routine that is not
  jettisoned, is still referenced and may be executing: no assertion fires.
\<close>

theorem deleteFromGC_unchecked_counterexample:
  "\<not> m_isJettisoned liveRoutine \<and> m_refCount liveRoutine \<noteq> 0 \<and> m_mayBeExecuting liveRoutine
   \<and> \<not> assertionsEnabled releaseBuild
   \<and> deleteFromGC releaseBuild liveRoutine = Inr Dead"
  by (simp add: deleteFromGC_def ASSERT_def releaseBuild_def liveRoutine_def)

subsection \<open>The reference count reaches zero\<close>

text \<open>
  C2. On a routine that is not jettisoned and whose reference count is zero,
  \<open>GCAware_observeZeroRefCount\<close> sets \<open>m_isJettisoned\<close> and leaves the object alive; so
  does the virtual \<open>observeZeroRefCount\<close> on each of the three collector-aware classes.
  Releasing the last reference of such a routine therefore leaves it alive and jettisoned,
  also while \<open>m_mayBeExecuting\<close> is set.
\<close>

theorem observeZeroRefCount_sets_isJettisoned:
  "(\<not> m_isJettisoned r \<and> m_refCount r = 0
      \<longrightarrow> GCAware_observeZeroRefCount r = Inr (Alive (r\<lparr>m_isJettisoned := True\<rparr>)))
   \<and> (isGCAware routine \<and> \<not> isJettisoned routine \<and> refCount routine = 0
      \<longrightarrow> (\<exists>routine' mem'. observeZeroRefCount pf routine mem = Inr (Alive routine', mem')
             \<and> isJettisoned routine'))
   \<and> (isGCAware routine \<and> \<not> isJettisoned routine \<and> refCount routine = 1
      \<longrightarrow> (\<exists>routine' mem'. JITStubRoutine_deref pf routine mem = Inr (Alive routine', mem')
             \<and> isJettisoned routine' \<and> refCount routine' = 0))
   \<and> (m_refCount g = 1 \<and> \<not> m_isJettisoned g \<and> m_mayBeExecuting g
      \<longrightarrow> JITStubRoutine_deref pf (GCAware g) mem
            = Inr (Alive (GCAware (g\<lparr>m_refCount := 0, m_isJettisoned := True\<rparr>)), mem))"
proof (intro conjI impI)
  assume "\<not> m_isJettisoned r \<and> m_refCount r = 0"
  then show "GCAware_observeZeroRefCount r = Inr (Alive (r\<lparr>m_isJettisoned := True\<rparr>))"
    by (simp add: GCAware_observeZeroRefCount_live)
next
  assume "isGCAware routine \<and> \<not> isJettisoned routine \<and> refCount routine = 0"
  then show "\<exists>routine' mem'. observeZeroRefCount pf routine mem = Inr (Alive routine', mem')
             \<and> isJettisoned routine'"
    using observeZeroRefCount_live [of routine pf mem] by blast
next
  assume a: "isGCAware routine \<and> \<not> isJettisoned routine \<and> refCount routine = 1"
  then have "isGCAware (setRefCount 0 routine) \<and> \<not> isJettisoned (setRefCount 0 routine)
             \<and> refCount (setRefCount 0 routine) = 0"
    by (cases routine) simp_all
  then show "\<exists>routine' mem'. JITStubRoutine_deref pf routine mem = Inr (Alive routine', mem')
             \<and> isJettisoned routine' \<and> refCount routine' = 0"
    using a observeZeroRefCount_live [of "setRefCount 0 routine" pf mem]
    by (simp add: JITStubRoutine_deref_def)
next
  assume "m_refCount g = 1 \<and> \<not> m_isJettisoned g \<and> m_mayBeExecuting g"
  then show "JITStubRoutine_deref pf (GCAware g) mem
            = Inr (Alive (GCAware (g\<lparr>m_refCount := 0, m_isJettisoned := True\<rparr>)), mem)"
    by (simp add: JITStubRoutine_deref_def GCAware_observeZeroRefCount_live)
qed

theorem observeZeroRefCount_sets_isJettisoned_witness:
  "GCAware_observeZeroRefCount (liveRoutine\<lparr>m_refCount := 0\<rparr>)
     = Inr (Alive (liveRoutine\<lparr>m_refCount := 0, m_isJettisoned := True\<rparr>))
   \<and> (\<exists>routine' mem'. observeZeroRefCount debugBuild (WithExceptionHandler (handlerRoutine\<lparr>m_refCount := 0\<rparr>)) exampleMemory
         = Inr (Alive routine', mem') \<and> isJettisoned routine')
   \<and> (\<exists>routine' mem'. JITStubRoutine_deref debugBuild (MarkingOneObject markingRoutine) exampleMemory
         = Inr (Alive routine', mem') \<and> isJettisoned routine' \<and> refCount routine' = 0)
   \<and> JITStubRoutine_deref debugBuild (GCAware liveRoutine) exampleMemory
       = Inr (Alive (GCAware (liveRoutine\<lparr>m_refCount := 0, m_isJettisoned := True\<rparr>)), exampleMemory)"
  using observeZeroRefCount_sets_isJettisoned
    [of "liveRoutine\<lparr>m_refCount := 0\<rparr>" "WithExceptionHandler (handlerRoutine\<lparr>m_refCount := 0\<rparr>)"
        debugBuild exampleMemory liveRoutine]
    observeZeroRefCount_sets_isJettisoned
    [of liveRoutine "MarkingOneObject markingRoutine" debugBuild exampleMemory liveRoutine]
  by (simp add: liveRoutine_def handlerRoutine_def markingRoutine_def)

text \<open>
  C3. On a routine that is already jettisoned (the registry was torn down while the routine
  was still referenced), \<open>observeZeroRefCount\<close> destroys the object at once, and so does
  the release of its last reference.
\<close>

theorem observeZeroRefCount_after_shutdown_destroys:
  "(m_isJettisoned r \<longrightarrow> GCAware_observeZeroRefCount r = Inr Dead)
   \<and> (isGCAware routine \<and> isJettisoned routine
      \<longrightarrow> (\<exists>mem'. observeZeroRefCount pf routine mem = Inr (Dead, mem')))
   \<and> (isGCAware routine \<and> isJettisoned routine \<and> refCount routine = 1
      \<longrightarrow> (\<exists>mem'. JITStubRoutine_deref pf routine mem = Inr (Dead, mem')))"
proof (intro conjI impI)
  assume "m_isJettisoned r"
  then show "GCAware_observeZeroRefCount r = Inr Dead"
    by (rule GCAware_observeZeroRefCount_jettisoned)
next
  assume "isGCAware routine \<and> isJettisoned routine"
  then show "\<exists>mem'. observeZeroRefCount pf routine mem = Inr (Dead, mem')"
    using observeZeroRefCount_jettisoned by blast
next
  assume a: "isGCAware routine \<and> isJettisoned routine \<and> refCount routine = 1"
  then have "isGCAware (setRefCount 0 routine) \<and> isJettisoned (setRefCount 0 routine)"
    by (cases routine) simp_all
  then show "\<exists>mem'. JITStubRoutine_deref pf routine mem = Inr (Dead, mem')"
    using a observeZeroRefCount_jettisoned [of "setRefCount 0 routine" pf mem]
    by (simp add: JITStubRoutine_deref_def)
qed

theorem observeZeroRefCount_after_shutdown_destroys_witness:
  "GCAware_observeZeroRefCount (liveRoutine\<lparr>m_isJettisoned := True\<rparr>) = Inr Dead
   \<and> (\<exists>mem'. observeZeroRefCount releaseBuild (GCAware (liveRoutine\<lparr>m_isJettisoned := True\<rparr>)) exampleMemory
        = Inr (Dead, mem'))
   \<and> (\<exists>mem'. JITStubRoutine_deref releaseBuild (GCAware (liveRoutine\<lparr>m_isJettisoned := True\<rparr>)) exampleMemory
        = Inr (Dead, mem'))"
  using observeZeroRefCount_after_shutdown_destroys
    [of "liveRoutine\<lparr>m_isJettisoned := True\<rparr>" "GCAware (liveRoutine\<lparr>m_isJettisoned := True\<rparr>)"
        releaseBuild exampleMemory]
  by (simp add: liveRoutine_def)

subsection \<open>The jettisoned flag never reverts\<close>

lemma perform_keeps_flag:
  assumes "isJettisoned routine"
    and "perform pf c routine mem visitor = Inr (Alive routine', mem', visitor')"
  shows "isJettisoned routine'"
proof (cases c)
  case Ref
  with assms show ?thesis by (auto simp: JITStubRoutine_ref_def)
next
  case Deref
  with assms show ?thesis
    by (auto simp: JITStubRoutine_deref_def split: sum.splits if_splits
        dest: observeZeroRefCount_keeps_flag)
next
  case ObserveZeroRefCount
  with assms show ?thesis
    by (auto split: sum.splits dest: observeZeroRefCount_keeps_flag)
next
  case DeleteFromGC
  with assms show ?thesis
    by (cases routine) (auto simp: deleteFromGC_never_alive map_life_eq_Alive split: sum.splits)
next
  case MarkRequiredObjectsInternal
  with assms show ?thesis
    by (cases routine)
      (auto simp: GCAware_markRequiredObjectsInternal_def Marking_markRequiredObjectsInternal_def)
next
  case AboutToDie
  with assms show ?thesis
    by (cases routine) (auto simp: aboutToDie_def)
qed

lemma performAll_keeps_flag:
  "isJettisoned routine
     \<Longrightarrow> performAll pf cs routine mem visitor = Inr (Alive routine', mem', visitor')
     \<Longrightarrow> isJettisoned routine'"
proof (induction cs arbitrary: routine mem visitor)
  case Nil
  then show ?case by simp
next
  case (Cons c cs)
  from Cons.prems(2) obtain r1 m1 v1 where
    step: "perform pf c routine mem visitor = Inr (Alive r1, m1, v1)"
    and rest: "performAll pf cs r1 m1 v1 = Inr (Alive routine', mem', visitor')"
    by (auto split: sum.splits life.splits prod.splits)
  from perform_keeps_flag [OF Cons.prems(1) step] have "isJettisoned r1" .
  from Cons.IH [OF this rest] show ?case .
qed

lemma performAll_append:
  "performAll pf (cs @ ds) routine mem visitor =
     (case performAll pf cs routine mem visitor of
        Inl e \<Rightarrow> Inl e
      | Inr (Dead, mem', visitor') \<Rightarrow> Inr (Dead, mem', visitor')
      | Inr (Alive routine', mem', visitor') \<Rightarrow> performAll pf ds routine' mem' visitor')"
  by (induction cs arbitrary: routine mem visitor)
    (auto split: sum.splits life.splits prod.splits)

lemma createJITStubRoutine_not_jettisoned:
  "createJITStubRoutine pf this code vm mem owner makesCalls object cb cs = Inr (routine, vm')
     \<Longrightarrow> \<not> isJettisoned routine"
  by (auto simp: createJITStubRoutine_def RELEASE_ASSERT_def ASSERT_def
      GCAwareJITStubRoutineWithExceptionHandler_new_def GCAwareJITStubRoutine_new_def
      MarkingGCAwareJITStubRoutineWithOneObject_new_def JITStubRoutine_new_def
      split: if_splits option.splits sum.splits prod.splits)

text \<open>
  C4. \<open>m_isJettisoned\<close> is monotonic. A routine made by the factory starts with the flag
  clear; and in every run of calls (\<open>ref\<close>, \<open>deref\<close>, \<open>observeZeroRefCount\<close>,
  \<open>deleteFromGC\<close>, the trace hook, \<open>aboutToDie\<close>), once the flag is set after some
  prefix of the run, it is set after every longer prefix that leaves the object alive.
\<close>

theorem isJettisoned_monotonic:
  "(createJITStubRoutine pf this code vm mem0 owner makesCalls object cb csi = Inr (routine0, vm')
      \<longrightarrow> \<not> isJettisoned routine0)
   \<and> (performAll pf cs routine mem visitor = Inr (Alive routine1, mem1, visitor1)
       \<and> isJettisoned routine1
       \<and> performAll pf (cs @ ds) routine mem visitor = Inr (Alive routine2, mem2, visitor2)
      \<longrightarrow> isJettisoned routine2)"
proof (intro conjI impI)
  assume "createJITStubRoutine pf this code vm mem0 owner makesCalls object cb csi = Inr (routine0, vm')"
  then show "\<not> isJettisoned routine0" by (rule createJITStubRoutine_not_jettisoned)
next
  assume a: "performAll pf cs routine mem visitor = Inr (Alive routine1, mem1, visitor1)
       \<and> isJettisoned routine1
       \<and> performAll pf (cs @ ds) routine mem visitor = Inr (Alive routine2, mem2, visitor2)"
  then have "performAll pf ds routine1 mem1 visitor1 = Inr (Alive routine2, mem2, visitor2)"
    by (auto simp: performAll_append)
  with a show "isJettisoned routine2" using performAll_keeps_flag by blast
qed

theorem isJettisoned_monotonic_witness:
  "\<not> isJettisoned (GCAware liveRoutine)
   \<and> isJettisoned (GCAware (liveRoutine\<lparr>m_refCount := 0, m_isJettisoned := True\<rparr>))
   \<and> isJettisoned (GCAware (liveRoutine\<lparr>m_refCount := 1, m_isJettisoned := True\<rparr>))"
proof -
  have made: "createJITStubRoutine debugBuild 12 0 exampleVM exampleMemory None True None None 0
      = Inr (GCAware (liveRoutine\<lparr>m_mayBeExecuting := False\<rparr>), JITStubRoutineSet_add 12 exampleVM)"
    by (simp add: createJITStubRoutine_def GCAwareJITStubRoutine_new_def JITStubRoutine_new_def
        liveRoutine_def)
  have first: "performAll debugBuild [Deref] (GCAware liveRoutine) exampleMemory exampleVisitor
      = Inr (Alive (GCAware (liveRoutine\<lparr>m_refCount := 0, m_isJettisoned := True\<rparr>)),
             exampleMemory, exampleVisitor)"
    by (simp add: JITStubRoutine_deref_def GCAware_observeZeroRefCount_def RELEASE_ASSERT_def
        liveRoutine_def)
  have flag: "isJettisoned (GCAware (liveRoutine\<lparr>m_refCount := 0, m_isJettisoned := True\<rparr>))"
    by simp
  have second: "performAll debugBuild ([Deref] @ [MarkRequiredObjectsInternal, Ref])
        (GCAware liveRoutine) exampleMemory exampleVisitor
      = Inr (Alive (GCAware (liveRoutine\<lparr>m_refCount := 1, m_isJettisoned := True\<rparr>)),
             exampleMemory, exampleVisitor)"
    by (simp add: JITStubRoutine_deref_def GCAware_observeZeroRefCount_def RELEASE_ASSERT_def
        JITStubRoutine_ref_def GCAware_markRequiredObjectsInternal_def liveRoutine_def)
  from isJettisoned_monotonic
    [of debugBuild 12 0 exampleVM exampleMemory None True None None 0
        "GCAware (liveRoutine\<lparr>m_mayBeExecuting := False\<rparr>)" "JITStubRoutineSet_add 12 exampleVM"
        "[Deref]" "GCAware liveRoutine" exampleMemory exampleVisitor
        "GCAware (liveRoutine\<lparr>m_refCount := 0, m_isJettisoned := True\<rparr>)" exampleMemory exampleVisitor
        "[MarkRequiredObjectsInternal, Ref]"
        "GCAware (liveRoutine\<lparr>m_refCount := 1, m_isJettisoned := True\<rparr>)" exampleMemory exampleVisitor]
    made first flag second
  show ?thesis by (simp add: liveRoutine_def)
qed

subsection \<open>The handler table\<close>

lemma example_new:
  "GCAwareJITStubRoutineWithExceptionHandler_new pf 12 0 exampleVM exampleMemory (Some 7) 3
     = Inr (handlerRoutine, JITStubRoutineSet_add 12 exampleVM)"
  by (simp add: GCAwareJITStubRoutineWithExceptionHandler_new_def ASSERT_def
      GCAwareJITStubRoutine_new_def JITStubRoutine_new_def handlerForIndex_def
      exampleMemory_def exampleCodeBlock_def handlerRoutine_def)

lemma example_create:
  "isOptimizingJIT pf (jitType (exampleMemory 7))
     \<Longrightarrow> createJITStubRoutine pf 12 0 exampleVM exampleMemory None True None (Some 7) 3
         = Inr (WithExceptionHandler handlerRoutine, JITStubRoutineSet_add 12 exampleVM)"
  by (simp add: createJITStubRoutine_def RELEASE_ASSERT_def example_new)











text \<open>
  C7. \<open>aboutToDie\<close> is idempotent on every exception-handling routine: a second call
  gives the state the first call gave. The call clears the back-reference to the code unit
  and leaves every other field as it was; run as a call on a routine, it changes neither
  the code units nor the tracer, and two calls in a row end in the state of one.
\<close>

theorem aboutToDie_idempotent:
  "aboutToDie (aboutToDie r) = aboutToDie r
   \<and> m_codeBlockWithExceptionHandler (aboutToDie r) = None
   \<and> aboutToDie r = r\<lparr>m_codeBlockWithExceptionHandler := None\<rparr>
   \<and> perform pf AboutToDie (WithExceptionHandler r) mem visitor
       = Inr (Alive (WithExceptionHandler (aboutToDie r)), mem, visitor)
   \<and> performAll pf [AboutToDie, AboutToDie] (WithExceptionHandler r) mem visitor
       = performAll pf [AboutToDie] (WithExceptionHandler r) mem visitor"
  by (simp add: aboutToDie_def)

lemma GCAware_observeZeroRefCount_keeps_backReference:
  "GCAware_observeZeroRefCount r = Inr (Alive r')
     \<Longrightarrow> m_codeBlockWithExceptionHandler r' = m_codeBlockWithExceptionHandler r"
  by (auto simp: GCAware_observeZeroRefCount_def RELEASE_ASSERT_def split: if_splits)

lemma WithExceptionHandler_observeZeroRefCount_null:
  "m_codeBlockWithExceptionHandler r = None
     \<Longrightarrow> WithExceptionHandler_observeZeroRefCount pf r mem =
           (case GCAware_observeZeroRefCount r of Inl c \<Rightarrow> Inl c | Inr l \<Rightarrow> Inr (l, mem))"
  by (simp add: WithExceptionHandler_observeZeroRefCount_def removeHandlerIfLive_def)

lemma observeZeroRefCount_keeps_memory:
  assumes "backReference routine = None"
    and "observeZeroRefCount pf routine mem = Inr (l, mem')"
  shows "mem' = mem \<and> (\<forall>routine'. l = Alive routine' \<longrightarrow> backReference routine' = None)"
proof (cases routine)
  case (Plain r)
  with assms show ?thesis by auto
next
  case (GCAware r)
  with assms show ?thesis by (auto simp: map_life_eq_Alive split: sum.splits)
next
  case (MarkingOneObject r)
  with assms show ?thesis by (auto simp: map_life_eq_Alive split: sum.splits)
next
  case (WithExceptionHandler r)
  with assms have null: "m_codeBlockWithExceptionHandler r = None" by simp
  from assms WithExceptionHandler null obtain l0 where
    base: "GCAware_observeZeroRefCount r = Inr l0"
    and l: "l = map_life WithExceptionHandler l0" and m: "mem' = mem"
    by (auto simp: WithExceptionHandler_observeZeroRefCount_null split: sum.splits)
  have "backReference routine' = None" if "l = Alive routine'" for routine'
  proof -
    from that l obtain r' where "l0 = Alive r'" "routine' = WithExceptionHandler r'"
      by (auto simp: map_life_eq_Alive)
    with base null GCAware_observeZeroRefCount_keeps_backReference [of r r'] show ?thesis
      by simp
  qed
  with m show ?thesis by simp
qed

lemma perform_keeps_memory:
  assumes "backReference routine = None"
    and "perform pf c routine mem visitor = Inr (l, mem', visitor')"
  shows "mem' = mem \<and> (\<forall>routine'. l = Alive routine' \<longrightarrow> backReference routine' = None)"
proof (cases c)
  case Ref
  with assms show ?thesis by (auto simp: JITStubRoutine_ref_def)
next
  case Deref
  with assms show ?thesis
    using observeZeroRefCount_keeps_memory
      [of "setRefCount (refCount routine - 1) routine" pf mem l mem']
    by (auto simp: JITStubRoutine_deref_def split: sum.splits if_splits)
next
  case ObserveZeroRefCount
  with assms show ?thesis
    using observeZeroRefCount_keeps_memory [of routine pf mem l mem']
    by (auto split: sum.splits)
next
  case DeleteFromGC
  with assms show ?thesis
    by (cases routine)
      (auto simp: deleteFromGC_def ASSERT_def split: sum.splits if_splits)
next
  case MarkRequiredObjectsInternal
  with assms show ?thesis
    by (cases routine)
      (auto simp: GCAware_markRequiredObjectsInternal_def Marking_markRequiredObjectsInternal_def)
next
  case AboutToDie
  with assms show ?thesis
    by (cases routine) (auto simp: aboutToDie_def)
qed

lemma performAll_keeps_memory:
  "backReference routine = None
     \<Longrightarrow> performAll pf cs routine mem visitor = Inr (l, mem', visitor')
     \<Longrightarrow> mem' = mem"
proof (induction cs arbitrary: routine mem visitor)
  case Nil
  then show ?case by simp
next
  case (Cons c cs)
  from Cons.prems(2) obtain l1 m1 v1 where
    step: "perform pf c routine mem visitor = Inr (l1, m1, v1)"
    by (cases "perform pf c routine mem visitor") auto
  from perform_keeps_memory [OF Cons.prems(1) step]
  have same: "m1 = mem" and null: "\<forall>routine'. l1 = Alive routine' \<longrightarrow> backReference routine' = None"
    by simp_all
  show ?case
  proof (cases l1)
    case Dead
    with step Cons.prems(2) same show ?thesis by simp
  next
    case (Alive r1)
    with step Cons.prems(2) have "performAll pf cs r1 m1 v1 = Inr (l, mem', visitor')"
      by simp
    moreover from null Alive have "backReference r1 = None" by simp
    ultimately have "mem' = m1" by (rule Cons.IH [rotated])
    with same show ?thesis by simp
  qed
qed

text \<open>
  C10. After \<open>aboutToDie\<close> the back-reference is null, so \<open>observeZeroRefCount\<close> skips
  the removal block: it is the base class's teardown on an unchanged memory. More
  generally, no run of calls that starts with \<open>aboutToDie\<close> changes any code unit, so the
  handler entry and the call-site metadata stay as they were.
\<close>

theorem aboutToDie_disables_handler_removal:
  "WithExceptionHandler_observeZeroRefCount pf (aboutToDie r) mem
     = (case GCAware_observeZeroRefCount (aboutToDie r) of
          Inl c \<Rightarrow> Inl c | Inr l \<Rightarrow> Inr (l, mem))
   \<and> (WithExceptionHandler_observeZeroRefCount pf (aboutToDie r) mem = Inr (l, mem1)
      \<longrightarrow> mem1 = mem)
   \<and> (performAll pf (AboutToDie # cs) (WithExceptionHandler r) mem visitor = Inr (l', mem', visitor')
      \<longrightarrow> mem' = mem)"
proof (intro conjI impI)
  show first: "WithExceptionHandler_observeZeroRefCount pf (aboutToDie r) mem
     = (case GCAware_observeZeroRefCount (aboutToDie r) of
          Inl c \<Rightarrow> Inl c | Inr l \<Rightarrow> Inr (l, mem))"
    by (simp add: WithExceptionHandler_observeZeroRefCount_null aboutToDie_def)
  assume "WithExceptionHandler_observeZeroRefCount pf (aboutToDie r) mem = Inr (l, mem1)"
  with first show "mem1 = mem"
    by (auto split: sum.splits)
next
  assume "performAll pf (AboutToDie # cs) (WithExceptionHandler r) mem visitor = Inr (l', mem', visitor')"
  then have "performAll pf cs (WithExceptionHandler (aboutToDie r)) mem visitor = Inr (l', mem', visitor')"
    by simp
  moreover have "backReference (WithExceptionHandler (aboutToDie r)) = None"
    by (simp add: aboutToDie_def)
  ultimately show "mem' = mem"
    by (rule performAll_keeps_memory [rotated])
qed

theorem aboutToDie_disables_handler_removal_witness:
  "WithExceptionHandler_observeZeroRefCount debugBuild (aboutToDie handlerRoutine) exampleMemory
     = (case GCAware_observeZeroRefCount (aboutToDie handlerRoutine) of
          Inl c \<Rightarrow> Inl c | Inr l \<Rightarrow> Inr (l, exampleMemory))
   \<and> performAll debugBuild [AboutToDie, Deref] (WithExceptionHandler handlerRoutine)
         exampleMemory exampleVisitor
       = Inr (Alive (WithExceptionHandler
                (handlerRoutine\<lparr>m_refCount := 0, m_isJettisoned := True,
                   m_codeBlockWithExceptionHandler := None\<rparr>)),
              exampleMemory, exampleVisitor)
   \<and> handlerForIndex (exampleMemory 7) 3 = Some 42"
proof -
  have run: "performAll debugBuild [AboutToDie, Deref] (WithExceptionHandler handlerRoutine)
         exampleMemory exampleVisitor
       = Inr (Alive (WithExceptionHandler
                (handlerRoutine\<lparr>m_refCount := 0, m_isJettisoned := True,
                   m_codeBlockWithExceptionHandler := None\<rparr>)),
              exampleMemory, exampleVisitor)"
    by (simp add: aboutToDie_def JITStubRoutine_deref_def WithExceptionHandler_observeZeroRefCount_def
        removeHandlerIfLive_def GCAware_observeZeroRefCount_def RELEASE_ASSERT_def
        debugBuild_def handlerRoutine_def)
  have entry: "handlerForIndex (exampleMemory 7) 3 = Some 42"
    by (simp add: handlerForIndex_def exampleMemory_def exampleCodeBlock_def)
  from aboutToDie_disables_handler_removal
      [where pf = debugBuild and r = handlerRoutine and mem = exampleMemory and cs = "[Deref]"
         and visitor = exampleVisitor and mem' = exampleMemory and visitor' = exampleVisitor
         and l' = "Alive (WithExceptionHandler
                (handlerRoutine\<lparr>m_refCount := 0, m_isJettisoned := True,
                   m_codeBlockWithExceptionHandler := None\<rparr>))"]
    run entry
  show ?thesis by simp
qed

subsection \<open>The factory and the registry\<close>

text \<open>
  C6. The decision table of \<open>createJITStubRoutine\<close>. A stub that makes no calls is a
  plain routine. Otherwise, with a code unit for exception handlers: a release assertion
  fails if an object is given too or the unit's tier is not an optimizing one; an
  assertion fails, where assertions are compiled in, if the unit has no handler for the
  call site; in every other case the result is an exception-handling routine for that unit
  and call site. Without a code unit, a given object yields a marking routine holding it,
  and no object yields a plain collector-aware routine.
\<close>

theorem createJITStubRoutine_decision_table:
  "(\<not> makesCalls \<longrightarrow>
      createJITStubRoutine pf this code vm mem owner makesCalls object cb cs
        = Inr (Plain (JITStubRoutine_new code), vm))
   \<and> (makesCalls \<and> cb = Some p \<and> (object \<noteq> None \<or> \<not> isOptimizingJIT pf (jitType (mem p))) \<longrightarrow>
      createJITStubRoutine pf this code vm mem owner makesCalls object cb cs
        = Inl ReleaseAssertionFailure)
   \<and> (makesCalls \<and> cb = Some p \<and> object = None \<and> isOptimizingJIT pf (jitType (mem p))
        \<and> assertionsEnabled pf \<and> handlerForIndex (mem p) cs = None \<longrightarrow>
      createJITStubRoutine pf this code vm mem owner makesCalls object cb cs
        = Inl AssertionFailure)
   \<and> (makesCalls \<and> cb = Some p \<and> object = None \<and> isOptimizingJIT pf (jitType (mem p))
        \<and> (assertionsEnabled pf \<longrightarrow> handlerForIndex (mem p) cs \<noteq> None) \<longrightarrow>
      (\<exists>r vm'. createJITStubRoutine pf this code vm mem owner makesCalls object cb cs
                 = Inr (WithExceptionHandler r, vm')
         \<and> m_codeBlockWithExceptionHandler r = Some p
         \<and> m_exceptionHandlerCallSiteIndex r = cs))
   \<and> (makesCalls \<and> cb = None \<and> object = Some cell \<longrightarrow>
      (\<exists>r vm'. createJITStubRoutine pf this code vm mem owner makesCalls object cb cs
                 = Inr (MarkingOneObject r, vm')
         \<and> m_object r = Some cell))
   \<and> (makesCalls \<and> cb = None \<and> object = None \<longrightarrow>
      (\<exists>r vm'. createJITStubRoutine pf this code vm mem owner makesCalls object cb cs
                 = Inr (GCAware r, vm')))"
proof (intro conjI impI)
  assume "\<not> makesCalls"
  then show "createJITStubRoutine pf this code vm mem owner makesCalls object cb cs
        = Inr (Plain (JITStubRoutine_new code), vm)"
    by (simp add: createJITStubRoutine_def)
next
  assume "makesCalls \<and> cb = Some p \<and> (object \<noteq> None \<or> \<not> isOptimizingJIT pf (jitType (mem p)))"
  then show "createJITStubRoutine pf this code vm mem owner makesCalls object cb cs
        = Inl ReleaseAssertionFailure"
    by (auto simp: createJITStubRoutine_def RELEASE_ASSERT_def)
next
  assume "makesCalls \<and> cb = Some p \<and> object = None \<and> isOptimizingJIT pf (jitType (mem p))
        \<and> assertionsEnabled pf \<and> handlerForIndex (mem p) cs = None"
  then show "createJITStubRoutine pf this code vm mem owner makesCalls object cb cs
        = Inl AssertionFailure"
    by (simp add: createJITStubRoutine_def RELEASE_ASSERT_def WithExceptionHandler_new_result)
next
  assume "makesCalls \<and> cb = Some p \<and> object = None \<and> isOptimizingJIT pf (jitType (mem p))
        \<and> (assertionsEnabled pf \<longrightarrow> handlerForIndex (mem p) cs \<noteq> None)"
  then show "\<exists>r vm'. createJITStubRoutine pf this code vm mem owner makesCalls object cb cs
                 = Inr (WithExceptionHandler r, vm')
         \<and> m_codeBlockWithExceptionHandler r = Some p
         \<and> m_exceptionHandlerCallSiteIndex r = cs"
    by (auto simp: createJITStubRoutine_def RELEASE_ASSERT_def WithExceptionHandler_new_result)
next
  assume "makesCalls \<and> cb = None \<and> object = Some cell"
  then show "\<exists>r vm'. createJITStubRoutine pf this code vm mem owner makesCalls object cb cs
                 = Inr (MarkingOneObject r, vm')
         \<and> m_object r = Some cell"
    by (simp add: createJITStubRoutine_def MarkingGCAwareJITStubRoutineWithOneObject_new_def
        GCAwareJITStubRoutine_new_def)
next
  assume "makesCalls \<and> cb = None \<and> object = None"
  then show "\<exists>r vm'. createJITStubRoutine pf this code vm mem owner makesCalls object cb cs
                 = Inr (GCAware r, vm')"
    by (simp add: createJITStubRoutine_def GCAwareJITStubRoutine_new_def)
qed

theorem createJITStubRoutine_decision_table_witness:
  "createJITStubRoutine debugBuild 12 0 exampleVM exampleMemory None False (Some 9) (Some 7) 3
     = Inr (Plain (JITStubRoutine_new 0), exampleVM)
   \<and> createJITStubRoutine debugBuild 12 0 exampleVM exampleMemory None True (Some 9) (Some 7) 3
     = Inl ReleaseAssertionFailure
   \<and> createJITStubRoutine debugBuild 12 0 exampleVM exampleMemory None True None (Some 7) 4
     = Inl AssertionFailure
   \<and> (\<exists>r vm'. createJITStubRoutine debugBuild 12 0 exampleVM exampleMemory None True None (Some 7) 3
                 = Inr (WithExceptionHandler r, vm')
         \<and> m_codeBlockWithExceptionHandler r = Some 7
         \<and> m_exceptionHandlerCallSiteIndex r = 3)
   \<and> (\<exists>r vm'. createJITStubRoutine debugBuild 12 0 exampleVM exampleMemory None True (Some 9) None 3
                 = Inr (MarkingOneObject r, vm')
         \<and> m_object r = Some 9)
   \<and> (\<exists>r vm'. createJITStubRoutine debugBuild 12 0 exampleVM exampleMemory None True None None 3
                 = Inr (GCAware r, vm'))"
  using createJITStubRoutine_decision_table
      [of False debugBuild 12 0 exampleVM exampleMemory None "Some 9" "Some 7" 3 7 9]
    createJITStubRoutine_decision_table
      [of True debugBuild 12 0 exampleVM exampleMemory None "Some 9" "Some 7" 3 7 9]
    createJITStubRoutine_decision_table
      [of True debugBuild 12 0 exampleVM exampleMemory None None "Some 7" 4 7 9]
    createJITStubRoutine_decision_table
      [of True debugBuild 12 0 exampleVM exampleMemory None None "Some 7" 3 7 9]
    createJITStubRoutine_decision_table
      [of True debugBuild 12 0 exampleVM exampleMemory None "Some 9" None 3 7 9]
    createJITStubRoutine_decision_table
      [of True debugBuild 12 0 exampleVM exampleMemory None None None 3 7 9]
  by (simp add: debugBuild_def exampleMemory_def exampleCodeBlock_def handlerForIndex_def)

text \<open>
  With assertions compiled in, a code unit of an optimizing tier and no object, the factory
  still fails when the unit has no handler registered for the call site.
\<close>

theorem createJITStubRoutine_unregistered_handler_counterexample:
  "isOptimizingJIT debugBuild (jitType (exampleMemory 7))
   \<and> createJITStubRoutine debugBuild 12 0 exampleVM exampleMemory None True None (Some 7) 4
       = Inl AssertionFailure"
  by (simp add: createJITStubRoutine_def RELEASE_ASSERT_def WithExceptionHandler_new_result
      debugBuild_def exampleMemory_def exampleCodeBlock_def handlerForIndex_def)

lemma createJITStubRoutine_registers:
  assumes "createJITStubRoutine pf this code vm mem owner True object cb cs = Inr (routine, vm')"
  shows "isGCAware routine \<and> vm' = JITStubRoutineSet_add this vm"
  using assms
  by (auto simp: createJITStubRoutine_def RELEASE_ASSERT_def WithExceptionHandler_new_result
      MarkingGCAwareJITStubRoutineWithOneObject_new_def GCAwareJITStubRoutine_new_def
      split: option.splits if_splits)

lemma JITStubRoutineSet_add_once:
  "m_jitStubRoutines (JITStubRoutineSet_add this vm) = m_jitStubRoutines vm @ [this]
   \<and> count_list (m_jitStubRoutines (JITStubRoutineSet_add this vm)) this
       = count_list (m_jitStubRoutines vm) this + 1"
  by (simp add: JITStubRoutineSet_add_def)

text \<open>
  C8. A stub that makes no calls is returned as a plain routine and the registry is left
  exactly as it was: the new address is not in it if it was not before. Constructing a
  routine of a collector-aware class registers it: the two constructors that cannot fail
  return the registry with the new address added, the constructor of the exception-handling
  class succeeds and does so whenever the code unit has a handler for the call site or
  assertions are compiled out, and the factory succeeds and does so on every stub that
  makes calls and meets the preconditions of its branch. Whenever a constructor or the
  factory returns a collector-aware routine, the registry it returns is the old one with
  the new address added; adding appends the address once.
\<close>

theorem construction_registers_once:
  "(\<not> makesCalls \<longrightarrow>
      createJITStubRoutine pf this code vm mem owner makesCalls object cb cs
        = Inr (Plain (JITStubRoutine_new code), vm))
   \<and> (\<not> makesCalls \<and> this \<notin> set (m_jitStubRoutines vm)
        \<and> createJITStubRoutine pf this code vm mem owner makesCalls object cb cs = Inr (routine, vm')
      \<longrightarrow> \<not> isGCAware routine \<and> m_jitStubRoutines vm' = m_jitStubRoutines vm
          \<and> this \<notin> set (m_jitStubRoutines vm'))
   \<and> snd (GCAwareJITStubRoutine_new this code vm) = JITStubRoutineSet_add this vm
   \<and> snd (MarkingGCAwareJITStubRoutineWithOneObject_new this code vm owner object)
       = JITStubRoutineSet_add this vm
   \<and> ((assertionsEnabled pf \<longrightarrow> handlerForIndex (mem p) cs \<noteq> None) \<longrightarrow>
        (\<exists>r. GCAwareJITStubRoutineWithExceptionHandler_new pf this code vm mem (Some p) cs
               = Inr (r, JITStubRoutineSet_add this vm)))
   \<and> (GCAwareJITStubRoutineWithExceptionHandler_new pf this code vm mem cb cs = Inr (r, vmr)
      \<longrightarrow> vmr = JITStubRoutineSet_add this vm)
   \<and> (makesCalls \<and> cb = None \<longrightarrow>
        (\<exists>routine0. createJITStubRoutine pf this code vm mem owner makesCalls object cb cs
                       = Inr (routine0, JITStubRoutineSet_add this vm)
           \<and> isGCAware routine0))
   \<and> (makesCalls \<and> cb = Some p \<and> object = None \<and> isOptimizingJIT pf (jitType (mem p))
        \<and> (assertionsEnabled pf \<longrightarrow> handlerForIndex (mem p) cs \<noteq> None) \<longrightarrow>
        (\<exists>routine0. createJITStubRoutine pf this code vm mem owner makesCalls object cb cs
                       = Inr (routine0, JITStubRoutineSet_add this vm)
           \<and> isGCAware routine0))
   \<and> (makesCalls
        \<and> createJITStubRoutine pf this code vm mem owner makesCalls object cb cs = Inr (routine, vm')
      \<longrightarrow> isGCAware routine \<and> vm' = JITStubRoutineSet_add this vm)
   \<and> m_jitStubRoutines (JITStubRoutineSet_add this vm) = m_jitStubRoutines vm @ [this]
   \<and> count_list (m_jitStubRoutines (JITStubRoutineSet_add this vm)) this
       = count_list (m_jitStubRoutines vm) this + 1"
proof (intro conjI impI)
  assume "\<not> makesCalls"
  then show "createJITStubRoutine pf this code vm mem owner makesCalls object cb cs
        = Inr (Plain (JITStubRoutine_new code), vm)"
    by (simp add: createJITStubRoutine_def)
next
  assume a: "\<not> makesCalls \<and> this \<notin> set (m_jitStubRoutines vm)
        \<and> createJITStubRoutine pf this code vm mem owner makesCalls object cb cs = Inr (routine, vm')"
  then have "routine = Plain (JITStubRoutine_new code) \<and> vm' = vm"
    by (auto simp: createJITStubRoutine_def)
  with a show "\<not> isGCAware routine" "m_jitStubRoutines vm' = m_jitStubRoutines vm"
    "this \<notin> set (m_jitStubRoutines vm')"
    by simp_all
next
  show "snd (GCAwareJITStubRoutine_new this code vm) = JITStubRoutineSet_add this vm"
    by (simp add: GCAwareJITStubRoutine_new_def)
next
  show "snd (MarkingGCAwareJITStubRoutineWithOneObject_new this code vm owner object)
       = JITStubRoutineSet_add this vm"
    by (simp add: MarkingGCAwareJITStubRoutineWithOneObject_new_def GCAwareJITStubRoutine_new_def)
next
  assume "assertionsEnabled pf \<longrightarrow> handlerForIndex (mem p) cs \<noteq> None"
  then show "\<exists>r. GCAwareJITStubRoutineWithExceptionHandler_new pf this code vm mem (Some p) cs
               = Inr (r, JITStubRoutineSet_add this vm)"
    by (auto simp: WithExceptionHandler_new_result)
next
  assume "GCAwareJITStubRoutineWithExceptionHandler_new pf this code vm mem cb cs = Inr (r, vmr)"
  then show "vmr = JITStubRoutineSet_add this vm"
    by (auto simp: GCAwareJITStubRoutineWithExceptionHandler_new_def ASSERT_def
        GCAwareJITStubRoutine_new_def split: option.splits if_splits)
next
  assume "makesCalls \<and> cb = None"
  then show "\<exists>routine0. createJITStubRoutine pf this code vm mem owner makesCalls object cb cs
                       = Inr (routine0, JITStubRoutineSet_add this vm)
           \<and> isGCAware routine0"
    by (simp add: createJITStubRoutine_def MarkingGCAwareJITStubRoutineWithOneObject_new_def
        GCAwareJITStubRoutine_new_def)
next
  assume "makesCalls \<and> cb = Some p \<and> object = None \<and> isOptimizingJIT pf (jitType (mem p))
        \<and> (assertionsEnabled pf \<longrightarrow> handlerForIndex (mem p) cs \<noteq> None)"
  then show "\<exists>routine0. createJITStubRoutine pf this code vm mem owner makesCalls object cb cs
                       = Inr (routine0, JITStubRoutineSet_add this vm)
           \<and> isGCAware routine0"
    by (auto simp: createJITStubRoutine_def RELEASE_ASSERT_def WithExceptionHandler_new_result)
next
  assume a: "makesCalls
        \<and> createJITStubRoutine pf this code vm mem owner makesCalls object cb cs = Inr (routine, vm')"
  then have "createJITStubRoutine pf this code vm mem owner True object cb cs = Inr (routine, vm')"
    by auto
  from createJITStubRoutine_registers [OF this]
  show "isGCAware routine" "vm' = JITStubRoutineSet_add this vm"
    by simp_all
next
  show "m_jitStubRoutines (JITStubRoutineSet_add this vm) = m_jitStubRoutines vm @ [this]"
    "count_list (m_jitStubRoutines (JITStubRoutineSet_add this vm)) this
       = count_list (m_jitStubRoutines vm) this + 1"
    using JITStubRoutineSet_add_once by simp_all
qed

theorem construction_registers_once_witness:
  "createJITStubRoutine debugBuild 12 0 exampleVM exampleMemory None False None None 3
     = Inr (Plain (JITStubRoutine_new 0), exampleVM)
   \<and> 12 \<notin> set (m_jitStubRoutines exampleVM)
   \<and> snd (GCAwareJITStubRoutine_new 12 0 exampleVM) = JITStubRoutineSet_add 12 exampleVM
   \<and> snd (MarkingGCAwareJITStubRoutineWithOneObject_new 12 0 exampleVM None (Some 9))
       = JITStubRoutineSet_add 12 exampleVM
   \<and> (\<exists>r. GCAwareJITStubRoutineWithExceptionHandler_new debugBuild 12 0 exampleVM exampleMemory
              (Some 7) 3 = Inr (r, JITStubRoutineSet_add 12 exampleVM))
   \<and> GCAwareJITStubRoutineWithExceptionHandler_new debugBuild 12 0 exampleVM exampleMemory (Some 7) 3
       = Inr (handlerRoutine, JITStubRoutineSet_add 12 exampleVM)
   \<and> createJITStubRoutine debugBuild 12 0 exampleVM exampleMemory None True None (Some 7) 3
       = Inr (WithExceptionHandler handlerRoutine, JITStubRoutineSet_add 12 exampleVM)
   \<and> isGCAware (WithExceptionHandler handlerRoutine)
   \<and> (\<exists>routine0. createJITStubRoutine debugBuild 12 0 exampleVM exampleMemory None True None None 3
                    = Inr (routine0, JITStubRoutineSet_add 12 exampleVM) \<and> isGCAware routine0)
   \<and> (\<exists>routine0. createJITStubRoutine debugBuild 12 0 exampleVM exampleMemory None True (Some 9) None 3
                    = Inr (routine0, JITStubRoutineSet_add 12 exampleVM) \<and> isGCAware routine0)
   \<and> (\<exists>routine0. createJITStubRoutine debugBuild 12 0 exampleVM exampleMemory None True None (Some 7) 3
                    = Inr (routine0, JITStubRoutineSet_add 12 exampleVM) \<and> isGCAware routine0)
   \<and> m_jitStubRoutines (JITStubRoutineSet_add 12 exampleVM) = [10, 11, 12]
   \<and> count_list (m_jitStubRoutines (JITStubRoutineSet_add 12 exampleVM)) 12 = 1"
proof -
  have fresh: "12 \<notin> set (m_jitStubRoutines exampleVM)"
    and registry: "m_jitStubRoutines exampleVM = [10, 11]"
    by (simp_all add: exampleVM_def)
  have checks: "assertionsEnabled debugBuild"
    and tier: "isOptimizingJIT debugBuild (jitType (exampleMemory 7))"
    and entry: "handlerForIndex (exampleMemory 7) 3 \<noteq> None"
    by (simp_all add: debugBuild_def exampleMemory_def exampleCodeBlock_def handlerForIndex_def)
  note plain = construction_registers_once
      [where makesCalls = False and pf = debugBuild and this = 12 and code = 0
         and vm = exampleVM and mem = exampleMemory and owner = None and object = None
         and cb = None and cs = 3 and p = 7 and routine = "Plain (JITStubRoutine_new 0)"
         and vm' = exampleVM]
  note aware = construction_registers_once
      [where makesCalls = True and pf = debugBuild and this = 12 and code = 0
         and vm = exampleVM and mem = exampleMemory and owner = None and object = None
         and cb = None and cs = 3 and p = 7]
  note marking = construction_registers_once
      [where makesCalls = True and pf = debugBuild and this = 12 and code = 0
         and vm = exampleVM and mem = exampleMemory and owner = None and object = "Some 9"
         and cb = None and cs = 3 and p = 7]
  note handler = construction_registers_once
      [where makesCalls = True and pf = debugBuild and this = 12 and code = 0
         and vm = exampleVM and mem = exampleMemory and owner = None and object = None
         and cb = "Some 7" and cs = 3 and p = 7 and r = handlerRoutine
         and vmr = "JITStubRoutineSet_add 12 exampleVM"
         and routine = "WithExceptionHandler handlerRoutine"
         and vm' = "JITStubRoutineSet_add 12 exampleVM"]
  note built = example_new [of debugBuild]
  note made = example_create [OF tier]
  from plain fresh
  have first: "createJITStubRoutine debugBuild 12 0 exampleVM exampleMemory None False None None 3
     = Inr (Plain (JITStubRoutine_new 0), exampleVM)"
    by simp
  from aware
  have second: "\<exists>routine0. createJITStubRoutine debugBuild 12 0 exampleVM exampleMemory None True None None 3
                    = Inr (routine0, JITStubRoutineSet_add 12 exampleVM) \<and> isGCAware routine0"
    by simp
  from marking
  have third: "\<exists>routine0. createJITStubRoutine debugBuild 12 0 exampleVM exampleMemory None True (Some 9) None 3
                    = Inr (routine0, JITStubRoutineSet_add 12 exampleVM) \<and> isGCAware routine0"
    by simp
  from handler tier entry built made
  have fourth: "(\<exists>r. GCAwareJITStubRoutineWithExceptionHandler_new debugBuild 12 0 exampleVM exampleMemory
              (Some 7) 3 = Inr (r, JITStubRoutineSet_add 12 exampleVM))
     \<and> (\<exists>routine0. createJITStubRoutine debugBuild 12 0 exampleVM exampleMemory None True None (Some 7) 3
                    = Inr (routine0, JITStubRoutineSet_add 12 exampleVM) \<and> isGCAware routine0)"
    by simp
  from plain registry
  have fifth: "snd (GCAwareJITStubRoutine_new 12 0 exampleVM) = JITStubRoutineSet_add 12 exampleVM
     \<and> m_jitStubRoutines (JITStubRoutineSet_add 12 exampleVM) = [10, 11, 12]
     \<and> count_list (m_jitStubRoutines (JITStubRoutineSet_add 12 exampleVM)) 12 = 1"
    by simp
  from marking
  have sixth: "snd (MarkingGCAwareJITStubRoutineWithOneObject_new 12 0 exampleVM None (Some 9))
       = JITStubRoutineSet_add 12 exampleVM"
    by simp
  from handler built made have seventh: "isGCAware (WithExceptionHandler handlerRoutine)"
    by simp
  from first fresh second third fourth fifth sixth seventh built made show ?thesis by simp
qed

subsection \<open>Tracing\<close>

text \<open>
  C9. The trace hook of a marking routine holding a cell gives the tracer exactly one more
  visit, of that cell, and returns the routine unchanged. The trace hook of a plain
  collector-aware routine changes neither the tracer nor the routine.
\<close>

theorem trace_hook_visits_once:
  "(m_object r = Some cell \<longrightarrow>
      fst (Marking_markRequiredObjectsInternal r visitor) = r
      \<and> visited (snd (Marking_markRequiredObjectsInternal r visitor)) = visited visitor @ [Some cell]
      \<and> count_list (visited (snd (Marking_markRequiredObjectsInternal r visitor))) (Some cell)
          = count_list (visited visitor) (Some cell) + 1
      \<and> perform pf MarkRequiredObjectsInternal (MarkingOneObject r) mem visitor
          = Inr (Alive (MarkingOneObject r), mem, SlotVisitor_append (Some cell) visitor))
   \<and> GCAware_markRequiredObjectsInternal g visitor = (g, visitor)
   \<and> perform pf MarkRequiredObjectsInternal (GCAware p) mem visitor
       = Inr (Alive (GCAware p), mem, visitor)"
  by (simp add: Marking_markRequiredObjectsInternal_def GCAware_markRequiredObjectsInternal_def
      SlotVisitor_append_def)

theorem trace_hook_visits_once_witness:
  "fst (Marking_markRequiredObjectsInternal markingRoutine exampleVisitor) = markingRoutine
   \<and> visited (snd (Marking_markRequiredObjectsInternal markingRoutine exampleVisitor))
       = [Some 8, Some 9]
   \<and> count_list (visited (snd (Marking_markRequiredObjectsInternal markingRoutine exampleVisitor)))
         (Some 9) = 1
   \<and> GCAware_markRequiredObjectsInternal liveRoutine exampleVisitor = (liveRoutine, exampleVisitor)"
proof -
  have held: "m_object markingRoutine = Some 9"
    by (simp add: markingRoutine_def)
  from trace_hook_visits_once
      [where r = markingRoutine and cell = 9 and visitor = exampleVisitor and g = liveRoutine]
    held
  show ?thesis by (simp add: exampleVisitor_def)
qed

end
